theory Spec2Isabelle
  imports Complex_Main
begin

section \<open>Design-pattern catalogue: a shallow embedding of script.js\<close>

text \<open>
  The script holds ten independent groups of classes. Each group used below is embedded
  on its own: classes become datatypes or records, methods become functions, a
  \<^verbatim>\<open>throw\<close> becomes the left summand of a sum, mutation becomes state passing, and
  \<^verbatim>\<open>console.log\<close> appends a line to a console (a list of strings).
\<close>

subsection \<open>Exceptions\<close>

text \<open>
  The script throws \<^verbatim>\<open>new Error(message)\<close> itself; the engine throws a TypeError
  when a property of \<^verbatim>\<open>null\<close> is read or when something that is not a function is
  called (its message is engine specific and is left out).
\<close>

datatype js_error = Error string | TypeError

type_synonym ref = nat

type_synonym console = "string list"

subsection \<open>Singleton (lines 2-18)\<close>

text \<open>
  The static private slot \<^verbatim>\<open>#instance\<close> holds \<^verbatim>\<open>null\<close> or a reference to a
  Singleton object; an object is truthy, so the two truthiness tests are tests against
  \<^verbatim>\<open>null\<close>. The heap maps the reference of each Singleton object to its
  \<^verbatim>\<open>value\<close> field. \<^verbatim>\<open>Math.random\<close> is the environment's: its draws are a
  sequence \<open>random_src\<close> of which \<open>random_used\<close> have been consumed. A draw is a
  double, read here as the real number it denotes; the script never computes with it.
\<close>

record singleton_world =
  Singleton_instance :: "ref option"
  objects :: "ref \<rightharpoonup> real"
  next_ref :: ref
  random_src :: "nat \<Rightarrow> real"
  random_used :: nat

definition Math_random :: "singleton_world \<Rightarrow> real \<times> singleton_world" where
  "Math_random w = (random_src w (random_used w), w\<lparr>random_used := Suc (random_used w)\<rparr>)"

text \<open>\<^verbatim>\<open>new Singleton()\<close>: the constructor throws when the slot is occupied; otherwise
  the new object gets a drawn value. The constructor does not write the slot.\<close>

definition Singleton_new :: "singleton_world \<Rightarrow> (js_error + ref) \<times> singleton_world" where
  "Singleton_new w =
     (case Singleton_instance w of
        Some p \<Rightarrow>
          (Inl (Error ''Cannot instantiate directly. Use Singleton.getInstance() instead.''), w)
      | None \<Rightarrow>
          (case Math_random w of
             (r, w1) \<Rightarrow>
               (Inr (next_ref w1),
                w1\<lparr>objects := (objects w1)(next_ref w1 \<mapsto> r),
                   next_ref := Suc (next_ref w1)\<rparr>)))"

definition getInstance :: "singleton_world \<Rightarrow> (js_error + ref) \<times> singleton_world" where
  "getInstance w =
     (case Singleton_instance w of
        None \<Rightarrow>
          (case Singleton_new w of
             (Inl e, w1) \<Rightarrow> (Inl e, w1)
           | (Inr p, w1) \<Rightarrow> (Inr p, w1\<lparr>Singleton_instance := Some p\<rparr>))
      | Some p \<Rightarrow> (Inr p, w))"

text \<open>The usage lines 21-25, repeated \<open>n\<close> times: call \<^verbatim>\<open>Singleton.getInstance()\<close>
  and read \<^verbatim>\<open>.value\<close> of what it returned. Each access yields the reference and the
  value read (\<open>None\<close> would be \<^verbatim>\<open>undefined\<close>).\<close>

primrec accesses :: "nat \<Rightarrow> singleton_world \<Rightarrow> (js_error + (ref \<times> real option) list) \<times> singleton_world" where
  "accesses 0 w = (Inr [], w)"
| "accesses (Suc n) w =
     (case getInstance w of
        (Inl e, w1) \<Rightarrow> (Inl e, w1)
      | (Inr p, w1) \<Rightarrow>
          (case accesses n w1 of
             (Inl e, w2) \<Rightarrow> (Inl e, w2)
           | (Inr obs, w2) \<Rightarrow> (Inr ((p, objects w1 p) # obs), w2)))"

text \<open>Two worlds to run the code in: before any access, with the draws 1/2, 1/3, ...
  still to come; and after the first access, the instance holding the draw 1/2.\<close>

definition demo_world :: singleton_world where
  "demo_world = \<lparr>Singleton_instance = None, objects = Map.empty, next_ref = 0,
         random_src = (\<lambda>i. 1 / (real i + 2)), random_used = 0\<rparr>"

definition taken_world :: singleton_world where
  "taken_world = \<lparr>Singleton_instance = Some 0, objects = [0 \<mapsto> 1 / 2], next_ref = 1,
         random_src = (\<lambda>i. 1 / (real i + 2)), random_used = 1\<rparr>"

subsection \<open>Factory method (lines 30-59)\<close>

datatype vehicle = Vehicle | Car | Bike

fun create :: "vehicle \<Rightarrow> js_error + string" where
  "create Vehicle = Inl (Error ''This method should be overridden!'')"
| "create Car = Inr ''Car created''"
| "create Bike = Inr ''Bike created''"

text \<open>The \<^verbatim>\<open>switch\<close> compares with strict equality, first case first.\<close>

definition getVehicle :: "string \<Rightarrow> js_error + vehicle" where
  "getVehicle t =
     (if t = ''car'' then Inr Car
      else if t = ''bike'' then Inr Bike
      else Inl (Error ''Unknown vehicle type''))"

subsection \<open>Decorator (lines 102-126)\<close>

text \<open>A decorator stores the component it wraps. Costs are small whole numbers, which
  a double holds exactly; they are integers here.\<close>

datatype coffee = Coffee | MilkDecorator coffee | SugarDecorator coffee

fun cost :: "coffee \<Rightarrow> int" where
  "cost Coffee = 5"
| "cost (MilkDecorator c) = cost c + 2"
| "cost (SugarDecorator c) = cost c + 1"

text \<open>To speak of nesting \<open>N\<close> decorators: a decorator class is named by a tag, and
  \<open>wrap ds c\<close> applies the constructors of \<open>ds\<close> around \<open>c\<close>, the head of
  \<open>ds\<close> outermost.\<close>

datatype decorator = Milk | Sugar

fun decorate :: "decorator \<Rightarrow> coffee \<Rightarrow> coffee" where
  "decorate Milk c = MilkDecorator c"
| "decorate Sugar c = SugarDecorator c"

fun increment :: "decorator \<Rightarrow> int" where
  "increment Milk = 2"
| "increment Sugar = 1"

definition wrap :: "decorator list \<Rightarrow> coffee \<Rightarrow> coffee" where
  "wrap ds c = foldr decorate ds c"

subsection \<open>Composite (lines 139-161)\<close>

text \<open>
  A node is a Leaf with its name or a Composite with its children, oldest first. Only
  Leaf has \<^verbatim>\<open>getName\<close>, and only Composite has \<^verbatim>\<open>add\<close> and
  \<^verbatim>\<open>getNames\<close>: calling a method an object does not have is a TypeError.
\<close>

datatype component = Leaf string | Composite "component list"

fun getName :: "component \<Rightarrow> js_error + string" where
  "getName (Leaf name) = Inr name"
| "getName (Composite children) = Inl TypeError"

fun Composite_add :: "component \<Rightarrow> component \<Rightarrow> js_error + component" where
  "Composite_add (Composite children) child = Inr (Composite (children @ [child]))"
| "Composite_add (Leaf name) child = Inl TypeError"

text \<open>\<^verbatim>\<open>Array.prototype.map\<close> with a callback that may throw: the first throw ends
  the traversal.\<close>

fun array_map :: "('a \<Rightarrow> js_error + 'b) \<Rightarrow> 'a list \<Rightarrow> js_error + 'b list" where
  "array_map f [] = Inr []"
| "array_map f (x # xs) =
     (case f x of
        Inl e \<Rightarrow> Inl e
      | Inr y \<Rightarrow> (case array_map f xs of Inl e \<Rightarrow> Inl e | Inr ys \<Rightarrow> Inr (y # ys)))"

fun getNames :: "component \<Rightarrow> js_error + string list" where
  "getNames (Composite children) = array_map getName children"
| "getNames (Leaf name) = Inl TypeError"

text \<open>A sequence of \<^verbatim>\<open>add\<close> calls on one composite, as in lines 167-169.\<close>

fun add_all :: "component list \<Rightarrow> component \<Rightarrow> js_error + component" where
  "add_all [] c = Inr c"
| "add_all (child # rest) c =
     (case Composite_add c child of Inl e \<Rightarrow> Inl e | Inr c' \<Rightarrow> add_all rest c')"

subsection \<open>Observer (lines 205-228)\<close>

text \<open>An Observer is immutable once constructed, so it is the record of its field.
  \<^verbatim>\<open>update\<close> prints one line; \<^verbatim>\<open>forEach\<close> visits the array from index 0
  upwards.\<close>

record observer =
  name :: string

record subject =
  observers :: "observer list"

definition Subject_new :: subject where
  "Subject_new = \<lparr>observers = []\<rparr>"

definition addObserver :: "subject \<Rightarrow> observer \<Rightarrow> subject" where
  "addObserver s ob = s\<lparr>observers := observers s @ [ob]\<rparr>"

definition update :: "observer \<Rightarrow> string \<Rightarrow> console \<Rightarrow> console" where
  "update ob message out = out @ [name ob @ '' received: '' @ message]"

definition notifyObservers :: "subject \<Rightarrow> string \<Rightarrow> console \<Rightarrow> console" where
  "notifyObservers s message out = fold (\<lambda>ob. update ob message) (observers s) out"

text \<open>The line one \<^verbatim>\<open>update(message)\<close> call prints.\<close>

definition received :: "string \<Rightarrow> observer \<Rightarrow> string" where
  "received message ob = name ob @ '' received: '' @ message"

subsection \<open>Chain of responsibility (lines 246-285)\<close>

text \<open>
  A handler object is of the base class or of one of its three subclasses, and stores
  \<^verbatim>\<open>nextHandler\<close> (\<open>None\<close> is \<^verbatim>\<open>null\<close>). \<open>Handler_handle\<close> is the base
  class's method, which the subclasses reach through \<^verbatim>\<open>super.handle\<close>; it takes the
  stored \<^verbatim>\<open>nextHandler\<close> of the receiver.
\<close>

datatype handler =
    Handler "handler option"
  | LowLevelHandler "handler option"
  | MediumLevelHandler "handler option"
  | HighLevelHandler "handler option"

fun nextHandler :: "handler \<Rightarrow> handler option" where
  "nextHandler (Handler nxt) = nxt"
| "nextHandler (LowLevelHandler nxt) = nxt"
| "nextHandler (MediumLevelHandler nxt) = nxt"
| "nextHandler (HighLevelHandler nxt) = nxt"

fun handle :: "handler \<Rightarrow> string \<Rightarrow> string"
  and Handler_handle :: "handler option \<Rightarrow> string \<Rightarrow> string" where
  "Handler_handle (Some nxt) request = handle nxt request"
| "Handler_handle None request = ''No handler available for this request.''"
| "handle (Handler nxt) request = Handler_handle nxt request"
| "handle (LowLevelHandler nxt) request =
     (if request = ''low'' then ''Handled by LowLevelHandler''
      else Handler_handle nxt request)"
| "handle (MediumLevelHandler nxt) request =
     (if request = ''medium'' then ''Handled by MediumLevelHandler''
      else Handler_handle nxt request)"
| "handle (HighLevelHandler nxt) request =
     (if request = ''high'' then ''Handled by HighLevelHandler''
      else Handler_handle nxt request)"

text \<open>The same traversal, recording instead of the result the objects whose
  \<^verbatim>\<open>handle\<close> method is entered, in call order: the receiver first, then whatever the
  forwarded call enters.\<close>

fun handle_receivers :: "handler \<Rightarrow> string \<Rightarrow> handler list"
  and Handler_handle_receivers :: "handler option \<Rightarrow> string \<Rightarrow> handler list" where
  "Handler_handle_receivers (Some nxt) request = handle_receivers nxt request"
| "Handler_handle_receivers None request = []"
| "handle_receivers (Handler nxt) request =
     Handler nxt # Handler_handle_receivers nxt request"
| "handle_receivers (LowLevelHandler nxt) request =
     LowLevelHandler nxt #
       (if request = ''low'' then [] else Handler_handle_receivers nxt request)"
| "handle_receivers (MediumLevelHandler nxt) request =
     MediumLevelHandler nxt #
       (if request = ''medium'' then [] else Handler_handle_receivers nxt request)"
| "handle_receivers (HighLevelHandler nxt) request =
     HighLevelHandler nxt #
       (if request = ''high'' then [] else Handler_handle_receivers nxt request)"

text \<open>The predicate and the result string of each class, read off the subclasses'
  \<^verbatim>\<open>handle\<close> methods. The base class has no predicate: it never matches, and
  its result string is never used.\<close>

fun predicate :: "handler \<Rightarrow> string \<Rightarrow> bool" where
  "predicate (Handler nxt) request = False"
| "predicate (LowLevelHandler nxt) request = (request = ''low'')"
| "predicate (MediumLevelHandler nxt) request = (request = ''medium'')"
| "predicate (HighLevelHandler nxt) request = (request = ''high'')"

fun handled_by :: "handler \<Rightarrow> string" where
  "handled_by (Handler nxt) = []"
| "handled_by (LowLevelHandler nxt) = ''Handled by LowLevelHandler''"
| "handled_by (MediumLevelHandler nxt) = ''Handled by MediumLevelHandler''"
| "handled_by (HighLevelHandler nxt) = ''Handled by HighLevelHandler''"

text \<open>The chain of lines 288-290.\<close>

definition highLevelHandler :: handler where
  "highLevelHandler = HighLevelHandler None"

definition mediumLevelHandler :: handler where
  "mediumLevelHandler = MediumLevelHandler (Some highLevelHandler)"

definition lowLevelHandler :: handler where
  "lowLevelHandler = LowLevelHandler (Some mediumLevelHandler)"

subsection \<open>Iterator and Collection (lines 299-331)\<close>

text \<open>
  Arrays are objects: a Collection's \<^verbatim>\<open>items\<close> and an Iterator's
  \<^verbatim>\<open>collection\<close> are references into a heap of arrays, and \<^verbatim>\<open>push\<close> updates
  the array in place. \<^verbatim>\<open>getIterator\<close> hands \<^verbatim>\<open>this.items\<close> to the Iterator's
  constructor, which stores what it is given. An Iterator is passed along as a value,
  \<^verbatim>\<open>next\<close> returning the advanced one.
\<close>

record 'a heap =
  arrays :: "ref \<Rightarrow> 'a list"
  next_free :: ref

record iterator =
  collection :: ref
  index :: nat

record collection =
  items :: ref

definition empty_heap :: "'a heap" where
  "empty_heap = \<lparr>arrays = (\<lambda>p. []), next_free = 0\<rparr>"

definition Iterator_new :: "ref \<Rightarrow> iterator" where
  "Iterator_new arr = \<lparr>collection = arr, index = 0\<rparr>"

definition hasNext :: "iterator \<Rightarrow> 'a heap \<Rightarrow> bool" where
  "hasNext it h = (index it < length (arrays h (collection it)))"

definition Iterator_next :: "iterator \<Rightarrow> 'a heap \<Rightarrow> js_error + ('a \<times> iterator)" where
  "Iterator_next it h =
     (if hasNext it h
      then Inr (arrays h (collection it) ! index it, it\<lparr>index := index it + 1\<rparr>)
      else Inl (Error ''No more elements''))"

definition Collection_new :: "'a heap \<Rightarrow> collection \<times> 'a heap" where
  "Collection_new h =
     (\<lparr>items = next_free h\<rparr>,
      h\<lparr>arrays := (arrays h)(next_free h := []), next_free := Suc (next_free h)\<rparr>)"

definition Collection_add :: "collection \<Rightarrow> 'a \<Rightarrow> 'a heap \<Rightarrow> 'a heap" where
  "Collection_add c x h = h\<lparr>arrays := (arrays h)(items c := arrays h (items c) @ [x])\<rparr>"

definition getIterator :: "collection \<Rightarrow> iterator" where
  "getIterator c = Iterator_new (items c)"

text \<open>The loop of lines 341-343, \<^verbatim>\<open>while (iterator.hasNext()) iterator.next()\<close>,
  returning the elements it produces.\<close>

function drain :: "iterator \<Rightarrow> 'a heap \<Rightarrow> js_error + 'a list" where
  "drain it h =
     (if hasNext it h
      then (case Iterator_next it h of
              Inl e \<Rightarrow> Inl e
            | Inr (x, it') \<Rightarrow>
                (case drain it' h of Inl e \<Rightarrow> Inl e | Inr xs \<Rightarrow> Inr (x # xs)))
      else Inr [])"
  by pat_completeness auto
termination
  by (relation "measure (\<lambda>(it, h). length (arrays h (collection it)) - index it)")
     (auto simp: hasNext_def Iterator_next_def)

declare drain.simps [simp del]

text \<open>Lines 334-339 with any three items, from any heap: a new collection, three
  \<^verbatim>\<open>add\<close> calls, then \<^verbatim>\<open>getIterator()\<close>.\<close>

definition three_items :: "'a \<Rightarrow> 'a \<Rightarrow> 'a \<Rightarrow> 'a heap \<Rightarrow> iterator \<times> 'a heap" where
  "three_items a b c h =
     (case Collection_new h of
        (col, h0) \<Rightarrow>
          (getIterator col, Collection_add col c (Collection_add col b (Collection_add col a h0))))"

text \<open>\<open>k\<close> successive \<^verbatim>\<open>next()\<close> calls on one iterator: the elements they return
  and the iterator as they leave it; a throw ends the run.\<close>

fun nexts :: "nat \<Rightarrow> iterator \<Rightarrow> 'a heap \<Rightarrow> js_error + ('a list \<times> iterator)" where
  "nexts 0 it h = Inr ([], it)"
| "nexts (Suc k) it h =
     (case Iterator_next it h of
        Inl e \<Rightarrow> Inl e
      | Inr (x, it') \<Rightarrow>
          (case nexts k it' h of
             Inl e \<Rightarrow> Inl e
           | Inr (xs, it'') \<Rightarrow> Inr (x # xs, it'')))"

text \<open>A heap that already holds another collection (with the item "Other"), then a
  second collection with the items "Item 1" and "Item 2", and the heap once both are
  added.\<close>

definition other_heap :: "string heap" where
  "other_heap =
     (case Collection_new empty_heap of (other, h) \<Rightarrow> Collection_add other ''Other'' h)"

definition one_collection :: collection where
  "one_collection = fst (Collection_new other_heap)"

definition one_heap :: "string heap" where
  "one_heap =
     Collection_add one_collection ''Item 2''
       (Collection_add one_collection ''Item 1'' (snd (Collection_new other_heap)))"

subsection \<open>Command (lines 346-431)\<close>

text \<open>The receivers have no fields; their methods print one line. A command object is
  of the base class or of one of the four concrete classes, each bound to its receiver.
  The invoker's \<^verbatim>\<open>command\<close> field is \<^verbatim>\<open>null\<close> (\<open>None\<close>) until
  \<^verbatim>\<open>setCommand\<close> stores a command.\<close>

datatype command = Command | LightOnCommand | LightOffCommand | TVOnCommand | TVOffCommand

definition Light_turnOn :: "console \<Rightarrow> console" where
  "Light_turnOn out = out @ [''Light is ON'']"

definition Light_turnOff :: "console \<Rightarrow> console" where
  "Light_turnOff out = out @ [''Light is OFF'']"

definition TV_turnOn :: "console \<Rightarrow> console" where
  "TV_turnOn out = out @ [''TV is ON'']"

definition TV_turnOff :: "console \<Rightarrow> console" where
  "TV_turnOff out = out @ [''TV is OFF'']"

fun execute :: "command \<Rightarrow> console \<Rightarrow> js_error + console" where
  "execute Command out = Inl (Error ''Execute method must be implemented'')"
| "execute LightOnCommand out = Inr (Light_turnOn out)"
| "execute LightOffCommand out = Inr (Light_turnOff out)"
| "execute TVOnCommand out = Inr (TV_turnOn out)"
| "execute TVOffCommand out = Inr (TV_turnOff out)"

record remoteControl =
  command :: "command option"

definition RemoteControl_new :: remoteControl where
  "RemoteControl_new = \<lparr>command = None\<rparr>"

definition setCommand :: "remoteControl \<Rightarrow> command \<Rightarrow> remoteControl" where
  "setCommand rc c = rc\<lparr>command := Some c\<rparr>"

definition pressButton :: "remoteControl \<Rightarrow> console \<Rightarrow> js_error + console" where
  "pressButton rc out =
     (case command rc of
        None \<Rightarrow> Inl TypeError
      | Some c \<Rightarrow> execute c out)"

section \<open>Properties\<close>

subsection \<open>Factory method\<close>

text \<open>
  C5. For every type key \<open>k\<close>, \<^verbatim>\<open>VehicleFactory.getVehicle(k)\<close> returns a Car when
  \<open>k\<close> is "car" (its \<^verbatim>\<open>create()\<close> returns "Car created"), a Bike when \<open>k\<close> is
  "bike" (its \<^verbatim>\<open>create()\<close> returns "Bike created"), and throws the error
  "Unknown vehicle type" (the spec's InvalidArgument) for every other key, "truck" among
  them.
\<close>

theorem getVehicle_by_key:
  "getVehicle ''car'' = Inr Car \<and> create Car = Inr ''Car created'' \<and>
   getVehicle ''bike'' = Inr Bike \<and> create Bike = Inr ''Bike created'' \<and>
   (k \<noteq> ''car'' \<and> k \<noteq> ''bike'' \<longrightarrow> getVehicle k = Inl (Error ''Unknown vehicle type'')) \<and>
   getVehicle ''truck'' = Inl (Error ''Unknown vehicle type'')"
  by (simp add: getVehicle_def)

theorem getVehicle_by_key_witness:
  "''boat'' \<noteq> ''car'' \<and> ''boat'' \<noteq> ''bike'' \<and>
   getVehicle ''boat'' = Inl (Error ''Unknown vehicle type'')"
  using getVehicle_by_key [of "''boat''"] by simp

subsection \<open>Decorator\<close>

lemma cost_wrap: "cost (wrap ds c) = cost c + sum_list (map increment ds)"
proof (induction ds)
  case Nil
  show ?case by (simp add: wrap_def)
next
  case (Cons d ds)
  then show ?case by (cases d) (simp_all add: wrap_def)
qed

text \<open>
  C4. For every component \<open>c\<close>, the cost of \<^verbatim>\<open>MilkDecorator(c)\<close> is the cost of
  \<open>c\<close> plus 2 and the cost of \<^verbatim>\<open>SugarDecorator(c)\<close> is the cost of \<open>c\<close> plus
  1; \<open>N\<close> decorators nested around a component cost the component's cost plus the
  sum of their \<open>N\<close> increments; milk-then-sugar and sugar-then-milk cost the same
  around every component. Around the plain Coffee (cost 5): milk gives 7, both orders
  of milk and sugar give 8, and the intermediate values differ (7 with milk alone, 6
  with sugar alone).
\<close>

theorem decorator_cost:
  "cost (MilkDecorator c) = cost c + 2 \<and>
   cost (SugarDecorator c) = cost c + 1 \<and>
   cost (wrap ds c) = cost c + sum_list (map increment ds) \<and>
   length (map increment ds) = length ds \<and>
   cost (SugarDecorator (MilkDecorator c)) = cost (MilkDecorator (SugarDecorator c)) \<and>
   cost Coffee = 5 \<and>
   cost (MilkDecorator Coffee) = 7 \<and>
   cost (SugarDecorator (MilkDecorator Coffee)) = 8 \<and>
   cost (MilkDecorator (SugarDecorator Coffee)) = 8 \<and>
   cost (MilkDecorator Coffee) \<noteq> cost (SugarDecorator Coffee)"
  by (simp add: cost_wrap)

theorem decorator_cost_witness:
  "cost (wrap [Sugar, Milk, Milk] Coffee) = 10"
  using decorator_cost [of Coffee "[Sugar, Milk, Milk]"] by simp

subsection \<open>Chain of responsibility\<close>

lemma handle_matched:
  "predicate h request \<Longrightarrow> handle h request = handled_by h \<and> handle_receivers h request = [h]"
  by (cases h) simp_all

lemma handle_forward:
  "\<not> predicate h request \<Longrightarrow> nextHandler h = Some n \<Longrightarrow>
   handle h request = handle n request \<and> handle_receivers h request = h # handle_receivers n request"
  by (cases h) simp_all

lemma handle_terminal:
  "\<not> predicate h request \<Longrightarrow> nextHandler h = None \<Longrightarrow>
   handle h request = ''No handler available for this request.'' \<and> handle_receivers h request = [h]"
  by (cases h) simp_all

lemma chain_example:
  "handle lowLevelHandler ''low'' = ''Handled by LowLevelHandler'' \<and>
   handle lowLevelHandler ''medium'' = ''Handled by MediumLevelHandler'' \<and>
   handle lowLevelHandler ''high'' = ''Handled by HighLevelHandler'' \<and>
   handle lowLevelHandler ''unknown'' = ''No handler available for this request.''"
  by (simp add: lowLevelHandler_def mediumLevelHandler_def highLevelHandler_def)

text \<open>
  C3. For every request string: a handler whose predicate matches returns its own
  result string and no other handler's \<^verbatim>\<open>handle\<close> is entered; a handler whose
  predicate does not match and that has a next handler returns what the next handler
  returns for the same request; a handler whose predicate does not match and that has
  no next handler returns "No handler available for this request.". On the chain
  low, medium, high: "low", "medium" and "high" are answered by the handler of that
  name and "unknown" by the sentinel.
\<close>

theorem handle_chain:
  "(predicate h request \<longrightarrow>
      handle h request = handled_by h \<and> handle_receivers h request = [h]) \<and>
   (\<not> predicate h request \<and> nextHandler h = Some n \<longrightarrow>
      handle h request = handle n request \<and>
      handle_receivers h request = h # handle_receivers n request) \<and>
   (\<not> predicate h request \<and> nextHandler h = None \<longrightarrow>
      handle h request = ''No handler available for this request.'' \<and>
      handle_receivers h request = [h]) \<and>
   handle lowLevelHandler ''low'' = ''Handled by LowLevelHandler'' \<and>
   handle lowLevelHandler ''medium'' = ''Handled by MediumLevelHandler'' \<and>
   handle lowLevelHandler ''high'' = ''Handled by HighLevelHandler'' \<and>
   handle lowLevelHandler ''unknown'' = ''No handler available for this request.''"
  using handle_matched [of h request] handle_forward [of h request n]
    handle_terminal [of h request] chain_example
  by blast

theorem handle_chain_witness:
  "predicate mediumLevelHandler ''medium'' \<and>
   handle mediumLevelHandler ''medium'' = ''Handled by MediumLevelHandler'' \<and>
   handle_receivers mediumLevelHandler ''medium'' = [mediumLevelHandler] \<and>
   \<not> predicate lowLevelHandler ''high'' \<and>
   nextHandler lowLevelHandler = Some mediumLevelHandler \<and>
   handle lowLevelHandler ''high'' = handle mediumLevelHandler ''high'' \<and>
   handle_receivers lowLevelHandler ''high'' =
     lowLevelHandler # handle_receivers mediumLevelHandler ''high'' \<and>
   \<not> predicate highLevelHandler ''unknown'' \<and>
   nextHandler highLevelHandler = None \<and>
   handle highLevelHandler ''unknown'' = ''No handler available for this request.'' \<and>
   handle_receivers highLevelHandler ''unknown'' = [highLevelHandler]"
proof -
  have a: "predicate mediumLevelHandler ''medium''"
    by (simp add: mediumLevelHandler_def)
  have b: "\<not> predicate lowLevelHandler ''high'' \<and> nextHandler lowLevelHandler = Some mediumLevelHandler"
    by (simp add: lowLevelHandler_def)
  have c: "\<not> predicate highLevelHandler ''unknown'' \<and> nextHandler highLevelHandler = None"
    by (simp add: highLevelHandler_def)
  show ?thesis
    using a b c
      handle_chain [of mediumLevelHandler "''medium''" highLevelHandler]
      handle_chain [of lowLevelHandler "''high''" mediumLevelHandler]
      handle_chain [of highLevelHandler "''unknown''" highLevelHandler]
    by (simp add: lowLevelHandler_def mediumLevelHandler_def highLevelHandler_def)
qed

subsection \<open>Singleton\<close>

lemma getInstance_first:
  "Singleton_instance w = None \<Longrightarrow>
   getInstance w =
     (Inr (next_ref w),
      w\<lparr>Singleton_instance := Some (next_ref w),
        objects := (objects w)(next_ref w \<mapsto> random_src w (random_used w)),
        next_ref := Suc (next_ref w),
        random_used := Suc (random_used w)\<rparr>)"
  by (simp add: getInstance_def Singleton_new_def Math_random_def)

lemma getInstance_again:
  "Singleton_instance w = Some p \<Longrightarrow> getInstance w = (Inr p, w)"
  by (simp add: getInstance_def)

lemma accesses_again:
  "Singleton_instance w = Some p \<Longrightarrow> accesses n w = (Inr (replicate n (p, objects w p)), w)"
  by (induction n) (simp_all add: getInstance_again)

text \<open>
  C1. Start with no instance and make \<open>N\<close> calls of \<^verbatim>\<open>Singleton.getInstance()\<close>,
  reading \<^verbatim>\<open>.value\<close> after each: every call returns the same reference, the one of
  the object the first call creates, and every read gives the same number, the draw
  the first call took from \<^verbatim>\<open>Math.random\<close>. That number is in [0,1) because every
  draw of \<^verbatim>\<open>Math.random\<close> is, which is the engine's contract and is assumed.
\<close>

theorem getInstance_shared:
  assumes fresh: "Singleton_instance w = None"
    and draws: "\<forall>i. 0 \<le> random_src w i \<and> random_src w i < 1"
  shows "fst (getInstance w) = Inr (next_ref w) \<and>
         fst (accesses n w) =
           Inr (replicate n (next_ref w, Some (random_src w (random_used w)))) \<and>
         0 \<le> random_src w (random_used w) \<and> random_src w (random_used w) < 1"
proof -
  let ?v = "random_src w (random_used w)"
  define w1 where "w1 = snd (getInstance w)"
  have g: "getInstance w = (Inr (next_ref w), w1)"
    using fresh by (simp add: w1_def getInstance_first)
  have i1: "Singleton_instance w1 = Some (next_ref w)"
    using fresh by (simp add: w1_def getInstance_first)
  have o1: "objects w1 (next_ref w) = Some ?v"
    using fresh by (simp add: w1_def getInstance_first)
  have seq: "fst (accesses n w) = Inr (replicate n (next_ref w, Some ?v))"
  proof (cases n)
    case 0
    then show ?thesis by simp
  next
    case (Suc m)
    have "accesses m w1 = (Inr (replicate m (next_ref w, Some ?v)), w1)"
      using accesses_again [OF i1, of m] o1 by simp
    then show ?thesis using Suc g o1 by simp
  qed
  show ?thesis using g seq draws by simp
qed

theorem getInstance_shared_witness:
  "Singleton_instance demo_world = None \<and>
   (\<forall>i. 0 \<le> random_src demo_world i \<and> random_src demo_world i < 1) \<and>
   fst (accesses 3 demo_world) = Inr [(0, Some (1 / 2)), (0, Some (1 / 2)), (0, Some (1 / 2))]"
proof -
  have a: "Singleton_instance demo_world = None"
    by (simp add: demo_world_def)
  have b: "\<forall>i. 0 \<le> random_src demo_world i \<and> random_src demo_world i < 1"
    by (simp add: demo_world_def)
  show ?thesis
    using a b getInstance_shared [OF a b, of 3]
    by (simp add: demo_world_def numeral_3_eq_3)
qed

text \<open>
  C6. \<^verbatim>\<open>new Singleton()\<close> while an instance exists throws the error "Cannot
  instantiate directly. Use Singleton.getInstance() instead." (the spec's
  InvalidOperation) and changes nothing: the slot still holds the same reference, the
  object's value is what it was, no draw is consumed, and \<^verbatim>\<open>getInstance()\<close> goes on
  returning the same instance.
\<close>

theorem Singleton_new_rejected:
  assumes "Singleton_instance w = Some p"
  shows "Singleton_new w =
           (Inl (Error ''Cannot instantiate directly. Use Singleton.getInstance() instead.''), w) \<and>
         Singleton_instance (snd (Singleton_new w)) = Some p \<and>
         objects (snd (Singleton_new w)) p = objects w p \<and>
         getInstance (snd (Singleton_new w)) = (Inr p, w)"
  using assms by (simp add: Singleton_new_def getInstance_def)

theorem Singleton_new_rejected_witness:
  "Singleton_instance taken_world = Some 0 \<and>
   fst (Singleton_new taken_world) =
     Inl (Error ''Cannot instantiate directly. Use Singleton.getInstance() instead.'') \<and>
   snd (Singleton_new taken_world) = taken_world \<and>
   objects (snd (Singleton_new taken_world)) 0 = Some (1 / 2)"
proof -
  have a: "Singleton_instance taken_world = Some 0"
    by (simp add: taken_world_def)
  have b: "objects taken_world 0 = Some (1 / 2)"
    by (simp add: taken_world_def)
  show ?thesis
    using a b Singleton_new_rejected [OF a] by simp
qed

subsection \<open>Iterator\<close>

lemma Iterator_next_ok:
  "hasNext it h \<Longrightarrow>
   Iterator_next it h = Inr (arrays h (collection it) ! index it, it\<lparr>index := index it + 1\<rparr>)"
  by (simp add: Iterator_next_def)

lemma Iterator_next_end:
  "\<not> hasNext it h \<Longrightarrow> Iterator_next it h = Inl (Error ''No more elements'')"
  by (simp add: Iterator_next_def)

lemma three_nexts:
  assumes "length (arrays h (collection it)) = 3" and "index it = 0"
  shows "hasNext it h \<and>
     Iterator_next it h = Inr (arrays h (collection it) ! 0, it\<lparr>index := 1\<rparr>) \<and>
     hasNext (it\<lparr>index := 1\<rparr>) h \<and>
     Iterator_next (it\<lparr>index := 1\<rparr>) h = Inr (arrays h (collection it) ! 1, it\<lparr>index := 2\<rparr>) \<and>
     hasNext (it\<lparr>index := 2\<rparr>) h \<and>
     Iterator_next (it\<lparr>index := 2\<rparr>) h = Inr (arrays h (collection it) ! 2, it\<lparr>index := 3\<rparr>) \<and>
     \<not> hasNext (it\<lparr>index := 3\<rparr>) h \<and>
     Iterator_next (it\<lparr>index := 3\<rparr>) h = Inl (Error ''No more elements'')"
  using assms by (simp add: Iterator_next_def hasNext_def)

text \<open>
  C2. \<^verbatim>\<open>hasNext()\<close> is true exactly when the cursor index is below the length of
  the underlying array; \<^verbatim>\<open>next()\<close> then returns the element at the cursor and the
  cursor moves on by one; \<^verbatim>\<open>next()\<close> when \<^verbatim>\<open>hasNext()\<close> is false throws the
  error "No more elements" (the spec's OutOfRange). Over an array of three items, from
  cursor 0: three \<^verbatim>\<open>next()\<close> calls succeed, each with \<^verbatim>\<open>hasNext()\<close> true before
  it, then \<^verbatim>\<open>hasNext()\<close> is false and a fourth \<^verbatim>\<open>next()\<close> throws.
\<close>

theorem Iterator_contract:
  "(hasNext it h \<longleftrightarrow> index it < length (arrays h (collection it))) \<and>
   (hasNext it h \<longrightarrow>
      Iterator_next it h =
        Inr (arrays h (collection it) ! index it, it\<lparr>index := index it + 1\<rparr>)) \<and>
   (\<not> hasNext it h \<longrightarrow> Iterator_next it h = Inl (Error ''No more elements'')) \<and>
   (length (arrays h (collection it)) = 3 \<and> index it = 0 \<longrightarrow>
      hasNext it h \<and>
      Iterator_next it h = Inr (arrays h (collection it) ! 0, it\<lparr>index := 1\<rparr>) \<and>
      hasNext (it\<lparr>index := 1\<rparr>) h \<and>
      Iterator_next (it\<lparr>index := 1\<rparr>) h =
        Inr (arrays h (collection it) ! 1, it\<lparr>index := 2\<rparr>) \<and>
      hasNext (it\<lparr>index := 2\<rparr>) h \<and>
      Iterator_next (it\<lparr>index := 2\<rparr>) h =
        Inr (arrays h (collection it) ! 2, it\<lparr>index := 3\<rparr>) \<and>
      \<not> hasNext (it\<lparr>index := 3\<rparr>) h \<and>
      Iterator_next (it\<lparr>index := 3\<rparr>) h = Inl (Error ''No more elements''))"
  using Iterator_next_ok [of it h] Iterator_next_end [of it h] three_nexts [of h it]
  by (simp add: hasNext_def)

lemma three_items_eval:
  "three_items a b c empty_heap =
     (\<lparr>collection = 0, index = 0\<rparr>, \<lparr>arrays = (\<lambda>p. [])(0 := [a, b, c]), next_free = 1\<rparr>)"
  by (simp add: three_items_def Collection_new_def Collection_add_def getIterator_def
      Iterator_new_def empty_heap_def)

theorem Iterator_contract_witness:
  "(case three_items ''Item 1'' ''Item 2'' ''Item 3'' empty_heap of
      (it, h) \<Rightarrow>
        length (arrays h (collection it)) = 3 \<and> index it = 0 \<and> hasNext it h \<and>
        Iterator_next it h = Inr (''Item 1'', it\<lparr>index := 1\<rparr>) \<and>
        Iterator_next (it\<lparr>index := 1\<rparr>) h = Inr (''Item 2'', it\<lparr>index := 2\<rparr>) \<and>
        Iterator_next (it\<lparr>index := 2\<rparr>) h = Inr (''Item 3'', it\<lparr>index := 3\<rparr>) \<and>
        \<not> hasNext (it\<lparr>index := 3\<rparr>) h \<and>
        Iterator_next (it\<lparr>index := 3\<rparr>) h = Inl (Error ''No more elements''))"
proof -
  let ?it = "\<lparr>collection = 0, index = 0\<rparr>"
  let ?h = "\<lparr>arrays = (\<lambda>p. [])(0 := [''Item 1'', ''Item 2'', ''Item 3'']), next_free = 1\<rparr>"
  have a: "length (arrays ?h (collection ?it)) = 3 \<and> index ?it = 0"
    by simp
  show ?thesis
    using a Iterator_contract [of ?it ?h]
      Iterator_contract [of "?it\<lparr>index := 3\<rparr>" ?h]
    by (simp add: three_items_eval)
qed

lemma drain_drop: "drain it h = Inr (drop (index it) (arrays h (collection it)))"
proof (induction it h rule: drain.induct)
  case (1 it h)
  show ?case
  proof (cases "hasNext it h")
    case True
    then have lt: "index it < length (arrays h (collection it))"
      by (simp add: hasNext_def)
    have nx: "Iterator_next it h =
        Inr (arrays h (collection it) ! index it, it\<lparr>index := index it + 1\<rparr>)"
      using True by (rule Iterator_next_ok)
    have "drain (it\<lparr>index := index it + 1\<rparr>) h =
        Inr (drop (Suc (index it)) (arrays h (collection it)))"
      using "1.IH" [OF True nx refl] by simp
    then have "drain it h =
        Inr (arrays h (collection it) ! index it # drop (Suc (index it)) (arrays h (collection it)))"
      using True nx by (subst drain.simps) simp
    then show ?thesis using lt by (simp add: Cons_nth_drop_Suc)
  next
    case False
    then show ?thesis by (subst drain.simps) (simp add: hasNext_def)
  qed
qed

lemma nexts_cursor:
  "nexts k it h = Inr (xs, it') \<Longrightarrow> index it \<le> length (arrays h (collection it)) \<Longrightarrow>
   collection it' = collection it \<and> index it' = index it + k \<and>
   index it + k \<le> length (arrays h (collection it)) \<and>
   xs = take k (drop (index it) (arrays h (collection it)))"
proof (induction k arbitrary: it xs)
  case 0
  then show ?case by simp
next
  case (Suc k)
  show ?case
  proof (cases "hasNext it h")
    case False
    then have "Iterator_next it h = Inl (Error ''No more elements'')"
      by (rule Iterator_next_end)
    then show ?thesis using Suc.prems by simp
  next
    case True
    let ?arr = "arrays h (collection it)"
    let ?it1 = "it\<lparr>index := index it + 1\<rparr>"
    have lt: "index it < length ?arr"
      using True by (simp add: hasNext_def)
    have nx: "Iterator_next it h = Inr (?arr ! index it, ?it1)"
      using True by (rule Iterator_next_ok)
    obtain ys where run: "nexts k ?it1 h = Inr (ys, it')" and xs: "xs = ?arr ! index it # ys"
      using Suc.prems nx by (auto split: sum.splits)
    have ih: "collection it' = collection ?it1 \<and> index it' = index ?it1 + k \<and>
        index ?it1 + k \<le> length (arrays h (collection ?it1)) \<and>
        ys = take k (drop (index ?it1) (arrays h (collection ?it1)))"
      using run lt by (intro Suc.IH) simp_all
    have "xs = take (Suc k) (drop (index it) ?arr)"
      using xs ih lt by (simp add: Cons_nth_drop_Suc [symmetric])
    then show ?thesis using ih by simp
  qed
qed

lemma drain_getIterator: "drain (getIterator c) h = Inr (arrays h (items c))"
  by (simp add: drain_drop getIterator_def Iterator_new_def)

lemma arrays_Collection_add:
  "arrays (Collection_add c x h) (items c) = arrays h (items c) @ [x]"
  by (simp add: Collection_add_def)

text \<open>
  C7, as the code has it. \<^verbatim>\<open>c.getIterator()\<close> gives the iterator \<open>c\<close>'s own
  items array, not a copy: drained, the iterator produces the items as they are in the
  array at that time. So after a later \<^verbatim>\<open>c.add(x)\<close> it produces what it would have
  produced without the call, followed by \<open>x\<close>; and the same holds of the iterator as
  any number of successful \<^verbatim>\<open>next()\<close> calls have left it, for the elements still
  to come.
\<close>

theorem drain_after_add:
  "drain (getIterator c) h = Inr (arrays h (items c)) \<and>
   drain (getIterator c) (Collection_add c x h) = Inr (arrays h (items c) @ [x]) \<and>
   (nexts k (getIterator c) h = Inr (xs, it) \<longrightarrow>
      xs = take k (arrays h (items c)) \<and>
      drain it h = Inr (drop k (arrays h (items c))) \<and>
      drain it (Collection_add c x h) = Inr (drop k (arrays h (items c)) @ [x]))"
proof -
  have later: "xs = take k (arrays h (items c)) \<and>
      drain it h = Inr (drop k (arrays h (items c))) \<and>
      drain it (Collection_add c x h) = Inr (drop k (arrays h (items c)) @ [x])"
    if run: "nexts k (getIterator c) h = Inr (xs, it)"
  proof -
    have cur: "collection it = items c \<and> index it = k \<and>
        k \<le> length (arrays h (items c)) \<and> xs = take k (arrays h (items c))"
      using nexts_cursor [OF run] by (simp add: getIterator_def Iterator_new_def)
    then show ?thesis
      by (simp add: drain_drop arrays_Collection_add)
  qed
  show ?thesis
    using later by (simp add: drain_getIterator arrays_Collection_add)
qed

lemma one_heap_arrays:
  "items one_collection = 1 \<and>
   arrays one_heap = (\<lambda>p. [])(0 := [''Other''], 1 := [''Item 1'', ''Item 2''])"
  by (simp add: one_heap_def one_collection_def other_heap_def Collection_new_def
      Collection_add_def empty_heap_def)

theorem drain_after_add_witness:
  "nexts 1 (getIterator one_collection) one_heap =
     Inr ([''Item 1''], \<lparr>collection = 1, index = 1\<rparr>) \<and>
   drain \<lparr>collection = 1, index = 1\<rparr> one_heap = Inr [''Item 2''] \<and>
   drain \<lparr>collection = 1, index = 1\<rparr> (Collection_add one_collection ''Item 3'' one_heap) =
     Inr [''Item 2'', ''Item 3''] \<and>
   drain (getIterator one_collection) (Collection_add one_collection ''Item 3'' one_heap) =
     Inr [''Item 1'', ''Item 2'', ''Item 3'']"
proof -
  have run: "nexts 1 (getIterator one_collection) one_heap =
      Inr ([''Item 1''], \<lparr>collection = 1, index = 1\<rparr>)"
    by (simp add: one_heap_arrays getIterator_def Iterator_new_def Iterator_next_def
        hasNext_def)
  show ?thesis
    using run
      drain_after_add [of one_collection one_heap "''Item 3''" 1 "[''Item 1'']"
        "\<lparr>collection = 1, index = 1\<rparr>"]
    by (simp add: one_heap_arrays Collection_add_def)
qed

text \<open>The claim as the spec words it (a snapshot: a later \<^verbatim>\<open>add\<close> leaves the
  iterator's output as it was) fails on the two-item collection.\<close>

theorem drain_snapshot_counterexample:
  "drain (getIterator one_collection) one_heap = Inr [''Item 1'', ''Item 2''] \<and>
   drain (getIterator one_collection) (Collection_add one_collection ''Item 3'' one_heap) =
     Inr [''Item 1'', ''Item 2'', ''Item 3''] \<and>
   drain (getIterator one_collection) (Collection_add one_collection ''Item 3'' one_heap) \<noteq>
     drain (getIterator one_collection) one_heap"
  by (simp add: drain_getIterator Collection_add_def one_heap_arrays)

subsection \<open>Composite\<close>

lemma add_all_append:
  "add_all children (Composite old) = Inr (Composite (old @ children))"
  by (induction children arbitrary: old) simp_all

lemma array_map_getName_leaves: "array_map getName (map Leaf names) = Inr names"
  by (induction names) simp_all

lemma array_map_getName_nested:
  "Composite grandchildren \<in> set children \<Longrightarrow> array_map getName children = Inl TypeError"
proof (induction children)
  case Nil
  then show ?case by simp
next
  case (Cons child rest)
  show ?case
  proof (cases child)
    case (Leaf name)
    then have "Composite grandchildren \<in> set rest" using Cons.prems by auto
    then show ?thesis using Cons.IH Leaf by simp
  next
    case (Composite cs)
    then show ?thesis by simp
  qed
qed

text \<open>
  C8, as the code has it. A Leaf's \<^verbatim>\<open>getName()\<close> returns the name it was
  constructed with. A fresh Composite after a sequence of \<^verbatim>\<open>add(child)\<close> calls
  holds the children in insertion order. When every child is a Leaf,
  \<^verbatim>\<open>getNames()\<close> returns exactly their names in that order; with the leaves
  "Leaf 1" and "Leaf 2" it returns ["Leaf 1", "Leaf 2"]. When some child is itself a
  Composite, which has no \<^verbatim>\<open>getName\<close>, \<^verbatim>\<open>getNames()\<close> throws a TypeError.
\<close>

theorem getNames_of_leaves:
  "getName (Leaf n) = Inr n \<and>
   add_all children (Composite []) = Inr (Composite children) \<and>
   getNames (Composite (map Leaf names)) = Inr names \<and>
   (Composite grandchildren \<in> set children \<longrightarrow>
      getNames (Composite children) = Inl TypeError) \<and>
   add_all [Leaf ''Leaf 1'', Leaf ''Leaf 2''] (Composite []) =
     Inr (Composite [Leaf ''Leaf 1'', Leaf ''Leaf 2'']) \<and>
   getNames (Composite [Leaf ''Leaf 1'', Leaf ''Leaf 2'']) = Inr [''Leaf 1'', ''Leaf 2'']"
  using add_all_append [of children "[]"]
  by (simp add: array_map_getName_leaves array_map_getName_nested)

theorem getNames_of_leaves_witness:
  "Composite [] \<in> set [Leaf ''Leaf 1'', Composite []] \<and>
   add_all [Leaf ''Leaf 1'', Composite []] (Composite []) =
     Inr (Composite [Leaf ''Leaf 1'', Composite []]) \<and>
   getNames (Composite [Leaf ''Leaf 1'', Composite []]) = Inl TypeError \<and>
   getNames (Composite (map Leaf [''a'', ''b'', ''c''])) = Inr [''a'', ''b'', ''c'']"
  using getNames_of_leaves [of _ "[Leaf ''Leaf 1'', Composite []]" "[''a'', ''b'', ''c'']" "[]"]
  by simp

text \<open>The claim as the spec words it (for every Composite built by \<^verbatim>\<open>add\<close> calls,
  \<^verbatim>\<open>getNames()\<close> returns a list of names) fails when a Composite is added to a
  Composite.\<close>

theorem getNames_nested_counterexample:
  "add_all [Composite []] (Composite []) = Inr (Composite [Composite []]) \<and>
   getNames (Composite [Composite []]) = Inl TypeError \<and>
   getNames (Composite [Composite []]) \<noteq> Inr []"
  by simp

subsection \<open>Observer\<close>

lemma fold_update:
  "fold (\<lambda>ob. update ob message) obs out = out @ map (received message) obs"
  by (induction obs arbitrary: out) (simp_all add: update_def received_def)

text \<open>
  C9. \<^verbatim>\<open>addObserver\<close> puts the observer at the end of the list, whatever the list
  holds: there is no duplicate or identity check, so adding the same observer twice
  leaves it in the list twice. \<^verbatim>\<open>notifyObservers(message)\<close> calls
  \<^verbatim>\<open>update(message)\<close> once per list entry, in list order: the console gains one
  line per entry, in that order, each the line that entry's \<^verbatim>\<open>update(message)\<close>
  prints.
\<close>

theorem notifyObservers_in_order:
  "observers (addObserver s ob) = observers s @ [ob] \<and>
   observers (addObserver (addObserver s ob) ob) = observers s @ [ob, ob] \<and>
   update ob message out = out @ [received message ob] \<and>
   notifyObservers s message out = out @ map (received message) (observers s) \<and>
   length (notifyObservers s message out) = length out + length (observers s) \<and>
   notifyObservers (addObserver s ob) message out =
     update ob message (notifyObservers s message out)"
  by (simp add: addObserver_def notifyObservers_def fold_update update_def received_def)

theorem notifyObservers_in_order_witness:
  "notifyObservers
     (addObserver (addObserver (addObserver Subject_new \<lparr>name = ''Observer 1''\<rparr>)
        \<lparr>name = ''Observer 2''\<rparr>) \<lparr>name = ''Observer 1''\<rparr>)
     ''Hello Observers!'' [] =
   [''Observer 1 received: Hello Observers!'',
    ''Observer 2 received: Hello Observers!'',
    ''Observer 1 received: Hello Observers!'']"
  using notifyObservers_in_order
    [of "addObserver (addObserver (addObserver Subject_new \<lparr>name = ''Observer 1''\<rparr>)
        \<lparr>name = ''Observer 2''\<rparr>) \<lparr>name = ''Observer 1''\<rparr>" "\<lparr>name = ''x''\<rparr>" "''Hello Observers!''" "[]"]
  by (simp add: addObserver_def Subject_new_def received_def)

subsection \<open>Command\<close>

text \<open>
  C10. \<^verbatim>\<open>pressButton()\<close> on a RemoteControl on which \<^verbatim>\<open>setCommand\<close> has never
  been called throws a TypeError, the held command being \<^verbatim>\<open>null\<close>; it is not a
  no-op, and nothing is printed. Once a command is set, \<^verbatim>\<open>pressButton()\<close> runs its
  \<^verbatim>\<open>execute()\<close>.
\<close>

theorem pressButton_without_command:
  "pressButton RemoteControl_new out = Inl TypeError \<and>
   pressButton RemoteControl_new out \<noteq> Inr out \<and>
   (command rc = None \<longrightarrow> pressButton rc out = Inl TypeError) \<and>
   pressButton (setCommand rc c) out = execute c out"
  by (simp add: pressButton_def RemoteControl_new_def setCommand_def)

theorem pressButton_without_command_witness:
  "command RemoteControl_new = None \<and>
   pressButton RemoteControl_new [] = Inl TypeError \<and>
   pressButton (setCommand RemoteControl_new LightOnCommand) [] = Inr [''Light is ON'']"
  using pressButton_without_command [of "[]" RemoteControl_new LightOnCommand]
  by (simp add: RemoteControl_new_def Light_turnOn_def)

end
